theory Spec2Isabelle
  imports Main
begin

section \<open>The header \<open>cmake/pthread_clock_compat.h\<close>\<close>

text \<open>
  The repository fragment is one C header. It has no function bodies, so what can be
  verified is what a compiler makes of its text: which lines survive preprocessing under
  a given set of defined macros, which declarations result, with which language linkage,
  and to which symbol a call through such a declaration binds. The header is written
  down line by line as data; preprocessing and the treatment of declarations are
  functions over that data. They cover the directives and declaration forms of this
  header, together with the forms the header could have used and does not (definitions
  of functions, objects and types), so that their absence is a statement about the file.
\<close>

subsection \<open>C types and external declarations\<close>

datatype qualifier = Const | Restrict | Volatile

datatype tyname = TypedefName string | StructTag string

datatype ctype =
    CVoid
  | CInt
  | Named tyname
  | Pointer ctype
  | Qualified qualifier ctype

text \<open>
  \<open>T *__restrict p\<close> is a restrict-qualified pointer to \<open>T\<close>:
  \<open>Qualified Restrict (Pointer T)\<close>; \<open>const struct timespec *\<close> is a pointer to a
  const-qualified structure: \<open>Pointer (Qualified Const (Named (StructTag ''timespec'')))\<close>.
\<close>

datatype param = Param (ptype: ctype) (pname: string)

datatype fundecl = FunDecl (ret: ctype) (fname: string) (params: "param list")

datatype extdecl =
    Prototype fundecl
  | FunctionDefinition fundecl
  | ObjectDefinition ctype string
  | TypedefDecl string ctype
  | StructDefinition string "param list"

text \<open>
  A \<open>Prototype\<close> is a function declarator closed by a semicolon. A
  \<open>FunctionDefinition\<close> is a declarator followed by a body; statements, and with them
  control flow, occur in function bodies only. An \<open>ObjectDefinition\<close> is a variable at
  file scope, the only form of state a header can introduce.
\<close>

subsection \<open>Lines of a source file\<close>

datatype text_line =
    LinkageOpen
  | BlockClose
  | Decl extdecl

datatype line =
    Ifndef string
  | Ifdef string
  | Define string
  | Endif
  | Include string
  | Text text_line

text \<open>
  \<open>LinkageOpen\<close> is the line \<^verbatim>\<open>extern "C" {\<close> and \<open>BlockClose\<close> the line \<^verbatim>\<open>}\<close>.
  \<open>Define m\<close> is \<^verbatim>\<open>#define m\<close> with an empty replacement list, the only form of
  macro definition in the header. \<open>Include h\<close> is \<^verbatim>\<open>#include <h>\<close>.
\<close>

subsection \<open>The four prototypes\<close>

definition pthread_cond_clockwait :: fundecl where
  "pthread_cond_clockwait = FunDecl CInt ''pthread_cond_clockwait''
     [Param (Qualified Restrict (Pointer (Named (TypedefName ''pthread_cond_t'')))) ''cond'',
      Param (Qualified Restrict (Pointer (Named (TypedefName ''pthread_mutex_t'')))) ''mutex'',
      Param (Named (TypedefName ''clockid_t'')) ''clock_id'',
      Param (Qualified Restrict (Pointer (Qualified Const (Named (StructTag ''timespec''))))) ''abstime'']"

definition pthread_mutex_clocklock :: fundecl where
  "pthread_mutex_clocklock = FunDecl CInt ''pthread_mutex_clocklock''
     [Param (Qualified Restrict (Pointer (Named (TypedefName ''pthread_mutex_t'')))) ''mutex'',
      Param (Named (TypedefName ''clockid_t'')) ''clock_id'',
      Param (Qualified Restrict (Pointer (Qualified Const (Named (StructTag ''timespec''))))) ''abstime'']"

definition pthread_rwlock_clockrdlock :: fundecl where
  "pthread_rwlock_clockrdlock = FunDecl CInt ''pthread_rwlock_clockrdlock''
     [Param (Qualified Restrict (Pointer (Named (TypedefName ''pthread_rwlock_t'')))) ''rwlock'',
      Param (Named (TypedefName ''clockid_t'')) ''clock_id'',
      Param (Qualified Restrict (Pointer (Qualified Const (Named (StructTag ''timespec''))))) ''abstime'']"

definition pthread_rwlock_clockwrlock :: fundecl where
  "pthread_rwlock_clockwrlock = FunDecl CInt ''pthread_rwlock_clockwrlock''
     [Param (Qualified Restrict (Pointer (Named (TypedefName ''pthread_rwlock_t'')))) ''rwlock'',
      Param (Named (TypedefName ''clockid_t'')) ''clock_id'',
      Param (Qualified Restrict (Pointer (Qualified Const (Named (StructTag ''timespec''))))) ''abstime'']"

definition prototypes :: "fundecl list" where
  "prototypes = [pthread_cond_clockwait, pthread_mutex_clocklock,
                 pthread_rwlock_clockrdlock, pthread_rwlock_clockwrlock]"

subsection \<open>The file\<close>

definition guard :: string where
  "guard = ''CUDA_SAMPLES_PTHREAD_CLOCK_COMPAT_H_''"

definition cplusplus :: string where
  "cplusplus = ''__cplusplus''"

definition header :: "line list" where
  "header =
    [Ifndef guard,
     Define guard,
     Include ''pthread.h'',
     Include ''time.h'',
     Ifdef cplusplus,
     Text LinkageOpen,
     Endif,
     Text (Decl (Prototype pthread_cond_clockwait)),
     Text (Decl (Prototype pthread_mutex_clocklock)),
     Text (Decl (Prototype pthread_rwlock_clockrdlock)),
     Text (Decl (Prototype pthread_rwlock_clockwrlock)),
     Ifdef cplusplus,
     Text BlockClose,
     Endif,
     Endif]"

subsection \<open>Preprocessing\<close>

text \<open>
  The preprocessor keeps the set of defined macros, one entry per open conditional
  (whether the text inside it is kept, which already accounts for the enclosing
  conditionals), and the lines passed on to the compiler. A system header is passed on
  as a single item: its text belongs to the platform. Macros are only tested, never
  expanded: the one macro the header defines occurs in no text line.
\<close>

datatype error =
    UnbalancedEndif
  | UnterminatedConditional
  | LinkageSpecInC
  | UnmatchedBrace
  | UnterminatedLinkageBlock
  | UnknownTypeName string

datatype item = SysHeader string | Source text_line

record pp_state =
  macros :: "string set"
  stack :: "bool list"
  out :: "item list"

definition active :: "pp_state \<Rightarrow> bool" where
  "active st = (case stack st of [] \<Rightarrow> True | b # _ \<Rightarrow> b)"

definition emit :: "item \<Rightarrow> pp_state \<Rightarrow> pp_state" where
  "emit i st = (if active st then st\<lparr>out := out st @ [i]\<rparr> else st)"

fun pp_line :: "line \<Rightarrow> pp_state \<Rightarrow> error + pp_state" where
  "pp_line (Ifndef m) st = Inr (st\<lparr>stack := (active st \<and> m \<notin> macros st) # stack st\<rparr>)"
| "pp_line (Ifdef m) st = Inr (st\<lparr>stack := (active st \<and> m \<in> macros st) # stack st\<rparr>)"
| "pp_line (Define m) st =
     Inr (if active st then st\<lparr>macros := insert m (macros st)\<rparr> else st)"
| "pp_line Endif st =
     (case stack st of [] \<Rightarrow> Inl UnbalancedEndif | _ # rest \<Rightarrow> Inr (st\<lparr>stack := rest\<rparr>))"
| "pp_line (Include h) st = Inr (emit (SysHeader h) st)"
| "pp_line (Text t) st = Inr (emit (Source t) st)"

fun pp_lines :: "line list \<Rightarrow> pp_state \<Rightarrow> error + pp_state" where
  "pp_lines [] st = Inr st"
| "pp_lines (l # ls) st =
     (case pp_line l st of Inl e \<Rightarrow> Inl e | Inr st' \<Rightarrow> pp_lines ls st')"

definition preprocess :: "string set \<Rightarrow> line list \<Rightarrow> error + item list" where
  "preprocess M ls =
     (case pp_lines ls \<lparr>macros = M, stack = [], out = []\<rparr> of
        Inl e \<Rightarrow> Inl e
      | Inr st \<Rightarrow> if stack st = [] then Inr (out st) else Inl UnterminatedConditional)"

text \<open>A translation unit that includes the header \<open>n\<close> times holds its lines \<open>n\<close> times.\<close>

definition include_times :: "nat \<Rightarrow> line list \<Rightarrow> line list" where
  "include_times n hdr = concat (replicate n hdr)"

subsection \<open>From preprocessed lines to declarations\<close>

text \<open>
  The compiler proper reads the preprocessed lines in order. It keeps the type names in
  scope, the number of open \<^verbatim>\<open>extern "C"\<close> blocks, and the declarations seen so far,
  each with its language linkage. What a system header brings into scope is a parameter
  \<open>provides\<close> (header name to type names), since those headers belong to the platform.
  A typedef name that is not in scope is an error; a structure tag need not be in scope,
  since \<open>struct t *\<close> declares \<open>t\<close> as an incomplete type where it is not yet known.
\<close>

datatype language = C | Cxx

datatype linkage = CLinkage | CxxLinkage

fun type_names :: "ctype \<Rightarrow> tyname list" where
  "type_names CVoid = []"
| "type_names CInt = []"
| "type_names (Named n) = [n]"
| "type_names (Pointer t) = type_names t"
| "type_names (Qualified q t) = type_names t"

definition fundecl_types :: "fundecl \<Rightarrow> tyname list" where
  "fundecl_types d = type_names (ret d) @ concat (map (\<lambda>p. type_names (ptype p)) (params d))"

fun referenced :: "extdecl \<Rightarrow> tyname list" where
  "referenced (Prototype d) = fundecl_types d"
| "referenced (FunctionDefinition d) = fundecl_types d"
| "referenced (ObjectDefinition t n) = type_names t"
| "referenced (TypedefDecl n t) = type_names t"
| "referenced (StructDefinition n fs) = concat (map (\<lambda>p. type_names (ptype p)) fs)"

fun defined_types :: "extdecl \<Rightarrow> tyname list" where
  "defined_types (TypedefDecl n t) = [TypedefName n]"
| "defined_types (StructDefinition n fs) = [StructTag n]"
| "defined_types (Prototype d) = []"
| "defined_types (FunctionDefinition d) = []"
| "defined_types (ObjectDefinition t n) = []"

fun is_typedef_name :: "tyname \<Rightarrow> bool" where
  "is_typedef_name (TypedefName n) = True"
| "is_typedef_name (StructTag n) = False"

definition unknown_types :: "tyname set \<Rightarrow> extdecl \<Rightarrow> tyname list" where
  "unknown_types sc e = filter (\<lambda>n. is_typedef_name n \<and> n \<notin> sc) (referenced e)"

fun type_label :: "tyname \<Rightarrow> string" where
  "type_label (TypedefName n) = n"
| "type_label (StructTag n) = n"

definition linkage_at :: "language \<Rightarrow> nat \<Rightarrow> linkage" where
  "linkage_at lang depth = (if lang = C \<or> 0 < depth then CLinkage else CxxLinkage)"

record tr_state =
  scope :: "tyname set"
  depth :: nat
  decls :: "(linkage \<times> extdecl) list"

fun tr_item :: "language \<Rightarrow> (string \<Rightarrow> tyname set) \<Rightarrow> item \<Rightarrow> tr_state \<Rightarrow> error + tr_state" where
  "tr_item lang provides (SysHeader h) st = Inr (st\<lparr>scope := scope st \<union> provides h\<rparr>)"
| "tr_item lang provides (Source LinkageOpen) st =
     (if lang = C then Inl LinkageSpecInC else Inr (st\<lparr>depth := Suc (depth st)\<rparr>))"
| "tr_item lang provides (Source BlockClose) st =
     (case depth st of 0 \<Rightarrow> Inl UnmatchedBrace | Suc k \<Rightarrow> Inr (st\<lparr>depth := k\<rparr>))"
| "tr_item lang provides (Source (Decl e)) st =
     (case unknown_types (scope st) e of
        n # _ \<Rightarrow> Inl (UnknownTypeName (type_label n))
      | [] \<Rightarrow> Inr (st\<lparr>scope := scope st \<union> set (defined_types e),
                      decls := decls st @ [(linkage_at lang (depth st), e)]\<rparr>))"

fun tr_items :: "language \<Rightarrow> (string \<Rightarrow> tyname set) \<Rightarrow> item list \<Rightarrow> tr_state \<Rightarrow> error + tr_state" where
  "tr_items lang provides [] st = Inr st"
| "tr_items lang provides (i # is) st =
     (case tr_item lang provides i st of
        Inl e \<Rightarrow> Inl e
      | Inr st' \<Rightarrow> tr_items lang provides is st')"

definition translate :: "language \<Rightarrow> (string \<Rightarrow> tyname set) \<Rightarrow> item list \<Rightarrow> error + (linkage \<times> extdecl) list" where
  "translate lang provides is =
     (case tr_items lang provides is \<lparr>scope = {}, depth = 0, decls = []\<rparr> of
        Inl e \<Rightarrow> Inl e
      | Inr st \<Rightarrow> if depth st = 0 then Inr (decls st) else Inl UnterminatedLinkageBlock)"

text \<open>
  A C++ compiler predefines \<open>__cplusplus\<close>, a C compiler does not; \<open>U\<close> holds the macros
  defined besides (on the command line, or earlier in the translation unit).
\<close>

fun predefined :: "language \<Rightarrow> string set" where
  "predefined C = {}"
| "predefined Cxx = {cplusplus}"

definition compile :: "language \<Rightarrow> (string \<Rightarrow> tyname set) \<Rightarrow> string set \<Rightarrow> line list \<Rightarrow> error + (linkage \<times> extdecl) list" where
  "compile lang provides U ls =
     (case preprocess (predefined lang \<union> U) ls of
        Inl e \<Rightarrow> Inl e
      | Inr is \<Rightarrow> translate lang provides is)"

subsection \<open>Symbols and the binding of calls\<close>

text \<open>
  A function with C linkage is known to the linker by its own name; one with C++ linkage
  by a name the platform's ABI derives from the name and the parameter types, here a
  parameter \<open>mangle\<close>.
\<close>

fun symbol :: "(fundecl \<Rightarrow> string) \<Rightarrow> linkage \<Rightarrow> fundecl \<Rightarrow> string" where
  "symbol mangle CLinkage d = fname d"
| "symbol mangle CxxLinkage d = mangle d"

fun function_symbols :: "(fundecl \<Rightarrow> string) \<Rightarrow> (linkage \<times> extdecl) list \<Rightarrow> string list" where
  "function_symbols mangle [] = []"
| "function_symbols mangle ((lk, Prototype d) # ds) = symbol mangle lk d # function_symbols mangle ds"
| "function_symbols mangle ((lk, FunctionDefinition d) # ds) = symbol mangle lk d # function_symbols mangle ds"
| "function_symbols mangle (_ # ds) = function_symbols mangle ds"

text \<open>
  A call to \<open>f\<close> binds to the body of \<open>f\<close> where the translation unit defines one.
  Where it only declares \<open>f\<close>, the linker looks the symbol of that declaration up in the
  library \<open>lib\<close> (symbol to function), and the call is a call of the function found there.
\<close>

fun lookup_definition :: "string \<Rightarrow> (linkage \<times> extdecl) list \<Rightarrow> fundecl option" where
  "lookup_definition f [] = None"
| "lookup_definition f ((lk, FunctionDefinition d) # ds) =
     (if fname d = f then Some d else lookup_definition f ds)"
| "lookup_definition f (_ # ds) = lookup_definition f ds"

fun lookup_prototype :: "string \<Rightarrow> (linkage \<times> extdecl) list \<Rightarrow> (linkage \<times> fundecl) option" where
  "lookup_prototype f [] = None"
| "lookup_prototype f ((lk, Prototype d) # ds) =
     (if fname d = f then Some (lk, d) else lookup_prototype f ds)"
| "lookup_prototype f (_ # ds) = lookup_prototype f ds"

datatype 'f binding = Undeclared | Local fundecl | Unresolved string | Library 'f

definition resolve :: "(fundecl \<Rightarrow> string) \<Rightarrow> (string \<rightharpoonup> 'f) \<Rightarrow> (linkage \<times> extdecl) list \<Rightarrow> string \<Rightarrow> 'f binding" where
  "resolve mangle lib ds f =
     (case lookup_definition f ds of
        Some d \<Rightarrow> Local d
      | None \<Rightarrow>
          (case lookup_prototype f ds of
             None \<Rightarrow> Undeclared
           | Some (lk, d) \<Rightarrow>
               (case lib (symbol mangle lk d) of
                  None \<Rightarrow> Unresolved (symbol mangle lk d)
                | Some impl \<Rightarrow> Library impl)))"

text \<open>
  The status a caller receives from a call bound to a library function is the value that
  function returns for the arguments (and the state of the world) \<open>a\<close>. Bodies are not
  modelled, so a call bound otherwise has no value here.
\<close>

definition call :: "(fundecl \<Rightarrow> string) \<Rightarrow> (string \<rightharpoonup> ('a \<Rightarrow> 'r)) \<Rightarrow> (linkage \<times> extdecl) list \<Rightarrow> string \<Rightarrow> 'a \<Rightarrow> 'r option" where
  "call mangle lib ds f a =
     (case resolve mangle lib ds f of Library impl \<Rightarrow> Some (impl a) | _ \<Rightarrow> None)"

subsection \<open>What the file holds\<close>

fun declared :: "line \<Rightarrow> extdecl list" where
  "declared (Text (Decl e)) = [e]"
| "declared _ = []"

fun included :: "line \<Rightarrow> string list" where
  "included (Include h) = [h]"
| "included _ = []"

fun defined_macros :: "line \<Rightarrow> string list" where
  "defined_macros (Define m) = [m]"
| "defined_macros _ = []"

fun is_function_definition :: "extdecl \<Rightarrow> bool" where
  "is_function_definition (FunctionDefinition d) = True"
| "is_function_definition _ = False"

fun is_object_definition :: "extdecl \<Rightarrow> bool" where
  "is_object_definition (ObjectDefinition t n) = True"
| "is_object_definition _ = False"

fun unqualified :: "ctype \<Rightarrow> ctype" where
  "unqualified (Qualified q t) = unqualified t"
| "unqualified t = t"

fun is_pointer :: "ctype \<Rightarrow> bool" where
  "is_pointer (Pointer t) = True"
| "is_pointer _ = False"

fun restrict_qualified :: "ctype \<Rightarrow> bool" where
  "restrict_qualified (Qualified q t) = (q = Restrict \<or> restrict_qualified t)"
| "restrict_qualified _ = False"

definition last_two :: "'a list \<Rightarrow> 'a list" where
  "last_two xs = drop (length xs - 2) xs"

subsection \<open>The platform's headers\<close>

text \<open>
  The header relies on \<open>pthread.h\<close> and \<open>time.h\<close> for the types it names. POSIX.1 has
  \<open>pthread.h\<close> define \<open>pthread_cond_t\<close>, \<open>pthread_mutex_t\<close> and \<open>pthread_rwlock_t\<close>, and
  \<open>time.h\<close> define \<open>clockid_t\<close> and \<open>struct timespec\<close>. \<open>posix_headers\<close> says that of a
  platform; \<open>posix_types\<close> is the smallest such platform.
\<close>

definition posix_types :: "string \<Rightarrow> tyname set" where
  "posix_types h =
     (if h = ''pthread.h'' then
        {TypedefName ''pthread_cond_t'', TypedefName ''pthread_mutex_t'', TypedefName ''pthread_rwlock_t''}
      else if h = ''time.h'' then {TypedefName ''clockid_t'', StructTag ''timespec''}
      else {})"

definition posix_headers :: "(string \<Rightarrow> tyname set) \<Rightarrow> bool" where
  "posix_headers provides \<longleftrightarrow>
     posix_types ''pthread.h'' \<subseteq> provides ''pthread.h'' \<and>
     posix_types ''time.h'' \<subseteq> provides ''time.h''"

section \<open>Preprocessing the header\<close>

lemma pp_lines_append:
  "pp_lines (xs @ ys) st =
     (case pp_lines xs st of Inl e \<Rightarrow> Inl e | Inr st' \<Rightarrow> pp_lines ys st')"
  by (induction xs arbitrary: st) (auto split: sum.splits)

lemma header_skipped:
  "guard \<in> macros st \<Longrightarrow> pp_lines header st = Inr st"
  by (simp add: header_def active_def emit_def)

lemma header_first:
  "guard \<notin> M \<Longrightarrow>
   pp_lines header \<lparr>macros = M, stack = [], out = []\<rparr> =
     Inr \<lparr>macros = insert guard M, stack = [],
          out = [SysHeader ''pthread.h'', SysHeader ''time.h''] @
                (if cplusplus \<in> M then [Source LinkageOpen] else []) @
                map (\<lambda>d. Source (Decl (Prototype d))) prototypes @
                (if cplusplus \<in> M then [Source BlockClose] else [])\<rparr>"
  by (simp add: header_def active_def emit_def prototypes_def guard_def cplusplus_def)

lemma header_repeated_skipped:
  "guard \<in> macros st \<Longrightarrow> pp_lines (include_times n header) st = Inr st"
  by (induction n) (simp_all add: include_times_def pp_lines_append header_skipped)

lemma header_defines_guard:
  "pp_lines header \<lparr>macros = M, stack = [], out = []\<rparr> = Inr st \<Longrightarrow> guard \<in> macros st"
proof (cases "guard \<in> M")
  case True
  assume "pp_lines header \<lparr>macros = M, stack = [], out = []\<rparr> = Inr st"
  with True show ?thesis by (auto simp: header_skipped)
next
  case False
  assume "pp_lines header \<lparr>macros = M, stack = [], out = []\<rparr> = Inr st"
  with False show ?thesis by (auto simp: header_first)
qed

lemma header_repeated:
  "pp_lines (include_times (Suc n) header) \<lparr>macros = M, stack = [], out = []\<rparr> =
   pp_lines header \<lparr>macros = M, stack = [], out = []\<rparr>"
proof (cases "pp_lines header \<lparr>macros = M, stack = [], out = []\<rparr>")
  case (Inl e)
  then show ?thesis by (simp add: include_times_def pp_lines_append)
next
  case (Inr st)
  then have "guard \<in> macros st" by (rule header_defines_guard)
  then have "pp_lines (include_times n header) st = Inr st"
    by (rule header_repeated_skipped)
  with Inr show ?thesis
    by (simp add: include_times_def pp_lines_append)
qed

lemma preprocess_header:
  "guard \<notin> M \<Longrightarrow>
   preprocess M header =
     Inr ([SysHeader ''pthread.h'', SysHeader ''time.h''] @
          (if cplusplus \<in> M then [Source LinkageOpen] else []) @
          map (\<lambda>d. Source (Decl (Prototype d))) prototypes @
          (if cplusplus \<in> M then [Source BlockClose] else []))"
  by (simp add: preprocess_def header_first)

lemma preprocess_header_guarded:
  "guard \<in> M \<Longrightarrow> preprocess M header = Inr []"
  by (simp add: preprocess_def header_skipped)

section \<open>Compiling the header\<close>

lemma posix_headers_scope:
  assumes "posix_headers P"
  shows "TypedefName ''pthread_cond_t'' \<in> P ''pthread.h''"
    and "TypedefName ''pthread_mutex_t'' \<in> P ''pthread.h''"
    and "TypedefName ''pthread_rwlock_t'' \<in> P ''pthread.h''"
    and "TypedefName ''clockid_t'' \<in> P ''time.h''"
    and "StructTag ''timespec'' \<in> P ''time.h''"
  using assms by (simp_all add: posix_headers_def posix_types_def)

lemma posix_types_conform: "posix_headers posix_types"
  by (simp add: posix_headers_def)

lemmas prototype_defs =
  prototypes_def pthread_cond_clockwait_def pthread_mutex_clocklock_def
  pthread_rwlock_clockrdlock_def pthread_rwlock_clockwrlock_def

lemma translate_wrapped:
  assumes "posix_headers P"
  shows "translate Cxx P
           ([SysHeader ''pthread.h'', SysHeader ''time.h''] @ [Source LinkageOpen] @
            map (\<lambda>d. Source (Decl (Prototype d))) prototypes @ [Source BlockClose]) =
         Inr (map (\<lambda>d. (CLinkage, Prototype d)) prototypes)"
  using posix_headers_scope [OF assms]
  by (simp add: translate_def prototype_defs unknown_types_def fundecl_types_def linkage_at_def)

lemma translate_bare:
  assumes "posix_headers P"
  shows "translate lang P
           ([SysHeader ''pthread.h'', SysHeader ''time.h''] @
            map (\<lambda>d. Source (Decl (Prototype d))) prototypes) =
         Inr (map (\<lambda>d. (linkage_at lang 0, Prototype d)) prototypes)"
  using posix_headers_scope [OF assms]
  by (simp add: translate_def prototype_defs unknown_types_def fundecl_types_def)

lemma compile_header_cxx:
  assumes "posix_headers P" and "guard \<notin> U"
  shows "compile Cxx P U header = Inr (map (\<lambda>d. (CLinkage, Prototype d)) prototypes)"
proof -
  have "guard \<notin> predefined Cxx \<union> U"
    using assms(2) by (simp add: guard_def cplusplus_def)
  then show ?thesis
    using translate_wrapped [OF assms(1)] by (simp add: compile_def preprocess_header)
qed

lemma compile_header_c:
  assumes "posix_headers P" and "guard \<notin> U" and "cplusplus \<notin> U"
  shows "compile C P U header = Inr (map (\<lambda>d. (CLinkage, Prototype d)) prototypes)"
  using translate_bare [OF assms(1), of C] assms(2,3)
  by (simp add: compile_def preprocess_header linkage_at_def)

lemma compile_header:
  assumes "posix_headers P" and "guard \<notin> U" and "lang = C \<longrightarrow> cplusplus \<notin> U"
  shows "compile lang P U header = Inr (map (\<lambda>d. (CLinkage, Prototype d)) prototypes)"
  using assms by (cases lang) (simp_all add: compile_header_c compile_header_cxx)

text \<open>
  Two checks that the treatment of linkage is not vacuous: a C compiler with
  \<open>__cplusplus\<close> defined by hand rejects the header, and a C++ compiler given the
  prototypes without the two guarded wrapper lines gives them C++ linkage.
\<close>

lemma compile_header_c_forced:
  assumes "guard \<notin> U" and "cplusplus \<in> U"
  shows "compile C P U header = Inl LinkageSpecInC"
  using assms by (simp add: compile_def preprocess_header translate_def)

lemma compile_header_unwrapped:
  assumes "posix_headers P" and "guard \<notin> U"
  shows "compile Cxx P U (filter (\<lambda>l. l \<noteq> Text LinkageOpen \<and> l \<noteq> Text BlockClose) header) =
         Inr (map (\<lambda>d. (CxxLinkage, Prototype d)) prototypes)"
proof -
  have "pp_lines (filter (\<lambda>l. l \<noteq> Text LinkageOpen \<and> l \<noteq> Text BlockClose) header)
          \<lparr>macros = predefined Cxx \<union> U, stack = [], out = []\<rparr> =
        Inr \<lparr>macros = insert guard (predefined Cxx \<union> U), stack = [],
             out = [SysHeader ''pthread.h'', SysHeader ''time.h''] @
                   map (\<lambda>d. Source (Decl (Prototype d))) prototypes\<rparr>"
    using assms(2)
    by (simp add: header_def active_def emit_def prototypes_def guard_def cplusplus_def)
  then show ?thesis
    using translate_bare [OF assms(1), of Cxx]
    by (simp add: compile_def preprocess_def linkage_at_def)
qed

section \<open>Repeated inclusion\<close>

text \<open>
  C9. Inclusion is idempotent: a translation unit that includes the header \<open>n > 0\<close> times
  preprocesses to the same lines, and compiles to the same declarations, as one that
  includes it once, whatever macros are defined beforehand. The first inclusion defines
  the guard macro, and with the guard defined the whole body is skipped.
\<close>

theorem inclusion_idempotent:
  "0 < n \<Longrightarrow>
   preprocess M (include_times n header) = preprocess M header \<and>
   compile lang provides U (include_times n header) = compile lang provides U header"
proof -
  assume "0 < n"
  then obtain k where n: "n = Suc k" by (cases n) auto
  have "preprocess X (include_times n header) = preprocess X header" for X
    unfolding preprocess_def n header_repeated ..
  then show ?thesis by (simp add: compile_def)
qed

theorem inclusion_idempotent_witness:
  "(0::nat) < 3 \<and>
   preprocess {} (include_times 3 header) = preprocess {} header \<and>
   compile Cxx posix_types {} (include_times 3 header) = compile Cxx posix_types {} header"
  using inclusion_idempotent [of 3 "{}" Cxx posix_types "{}"] by simp

section \<open>The declarations of the header\<close>

lemma header_declared: "concat (map declared header) = map Prototype prototypes"
  by (simp add: header_def prototypes_def)

lemma prototype_names:
  "map fname prototypes =
     [''pthread_cond_clockwait'', ''pthread_mutex_clocklock'',
      ''pthread_rwlock_clockrdlock'', ''pthread_rwlock_clockwrlock'']"
  by (simp add: prototype_defs)

text \<open>
  C1. The header declares exactly four functions, \<open>pthread_cond_clockwait\<close>,
  \<open>pthread_mutex_clocklock\<close>, \<open>pthread_rwlock_clockrdlock\<close> and
  \<open>pthread_rwlock_clockwrlock\<close>: the declarations in the text of the file are the four
  prototypes, and on a POSIX platform, with the guard macro not yet defined, a C or C++
  compiler accepts the file and obtains these four declarations and no other. Each
  returns \<open>int\<close>, and the last two parameters of each are a \<open>clockid_t\<close> and a pointer to
  \<open>const struct timespec\<close>. The file holds no function definition (hence no statement
  and no control flow), no object definition (no state) and no type definition.
\<close>

theorem header_declares_four_prototypes:
  assumes "posix_headers P" and "guard \<notin> U" and "lang = C \<longrightarrow> cplusplus \<notin> U"
  shows "concat (map declared header) = map Prototype prototypes \<and>
         compile lang P U header = Inr (map (\<lambda>d. (CLinkage, Prototype d)) prototypes) \<and>
         map fname prototypes =
           [''pthread_cond_clockwait'', ''pthread_mutex_clocklock'',
            ''pthread_rwlock_clockrdlock'', ''pthread_rwlock_clockwrlock''] \<and>
         map ret prototypes = [CInt, CInt, CInt, CInt] \<and>
         map (\<lambda>d. map (\<lambda>p. unqualified (ptype p)) (last_two (params d))) prototypes =
           replicate 4 [Named (TypedefName ''clockid_t''),
                        Pointer (Qualified Const (Named (StructTag ''timespec'')))] \<and>
         filter is_function_definition (concat (map declared header)) = [] \<and>
         filter is_object_definition (concat (map declared header)) = [] \<and>
         concat (map defined_types (concat (map declared header))) = []"
proof -
  have "map ret prototypes = [CInt, CInt, CInt, CInt]"
    by (simp add: prototype_defs)
  moreover have "map (\<lambda>d. map (\<lambda>p. unqualified (ptype p)) (last_two (params d))) prototypes =
           replicate 4 [Named (TypedefName ''clockid_t''),
                        Pointer (Qualified Const (Named (StructTag ''timespec'')))]"
    by (simp add: prototype_defs last_two_def numeral_eq_Suc)
  moreover have "filter is_function_definition (concat (map declared header)) = []"
    and "filter is_object_definition (concat (map declared header)) = []"
    and "concat (map defined_types (concat (map declared header))) = []"
    by (simp_all add: header_declared prototypes_def)
  ultimately show ?thesis
    using compile_header [OF assms] header_declared prototype_names by simp
qed

theorem header_declares_four_prototypes_witness:
  "posix_headers posix_types \<and> guard \<notin> {} \<and> cplusplus \<notin> {} \<and>
   compile C posix_types {} header = Inr (map (\<lambda>d. (CLinkage, Prototype d)) prototypes) \<and>
   map ret prototypes = [CInt, CInt, CInt, CInt] \<and>
   filter is_function_definition (concat (map declared header)) = []"
  using header_declares_four_prototypes [OF posix_types_conform, of "{}" C] posix_types_conform
  by simp

section \<open>The types the header names\<close>

text \<open>
  C7. The types the four declarations refer to are \<open>pthread_cond_t\<close>, \<open>pthread_mutex_t\<close>,
  \<open>pthread_rwlock_t\<close>, \<open>clockid_t\<close> and \<open>struct timespec\<close>. The file includes \<open>pthread.h\<close>
  and \<open>time.h\<close>, and on a POSIX platform each of the five is provided by these two
  headers, so that no compilation of the header fails on an unknown type name. The file
  itself defines no type, no function and no object.
\<close>

theorem referenced_types_from_platform:
  assumes "posix_headers P"
  shows "concat (map included header) = [''pthread.h'', ''time.h''] \<and>
         set (concat (map referenced (concat (map declared header)))) =
           {TypedefName ''pthread_cond_t'', TypedefName ''pthread_mutex_t'',
            TypedefName ''pthread_rwlock_t'', TypedefName ''clockid_t'', StructTag ''timespec''} \<and>
         set (concat (map referenced (concat (map declared header)))) \<subseteq>
           \<Union> (P ` set (concat (map included header))) \<and>
         compile lang P U header \<noteq> Inl (UnknownTypeName n) \<and>
         concat (map defined_types (concat (map declared header))) = [] \<and>
         filter is_function_definition (concat (map declared header)) = [] \<and>
         filter is_object_definition (concat (map declared header)) = []"
proof -
  have inc: "concat (map included header) = [''pthread.h'', ''time.h'']"
    by (simp add: header_def)
  have refs: "set (concat (map referenced (concat (map declared header)))) =
           {TypedefName ''pthread_cond_t'', TypedefName ''pthread_mutex_t'',
            TypedefName ''pthread_rwlock_t'', TypedefName ''clockid_t'', StructTag ''timespec''}"
    by (auto simp: header_declared prototype_defs fundecl_types_def)
  have sub: "set (concat (map referenced (concat (map declared header)))) \<subseteq>
           \<Union> (P ` set (concat (map included header)))"
    unfolding refs inc using posix_headers_scope [OF assms] by simp
  have comp: "compile lang P U header \<noteq> Inl (UnknownTypeName n)"
  proof (cases "guard \<in> predefined lang \<union> U")
    case True
    then show ?thesis
      by (simp add: compile_def preprocess_header_guarded translate_def)
  next
    case False
    then have g: "guard \<notin> U" by simp
    show ?thesis
    proof (cases "lang = C \<and> cplusplus \<in> U")
      case True
      with g show ?thesis by (simp add: compile_header_c_forced)
    next
      case False
      with g assms show ?thesis by (simp add: compile_header)
    qed
  qed
  have "concat (map defined_types (concat (map declared header))) = []"
    and "filter is_function_definition (concat (map declared header)) = []"
    and "filter is_object_definition (concat (map declared header)) = []"
    by (simp_all add: header_declared prototypes_def)
  with inc refs sub comp show ?thesis by simp
qed

theorem referenced_types_from_platform_witness:
  "posix_headers posix_types \<and>
   set (concat (map referenced (concat (map declared header)))) \<subseteq>
     \<Union> (posix_types ` set (concat (map included header))) \<and>
   compile Cxx posix_types {} header \<noteq> Inl (UnknownTypeName ''clockid_t'') \<and>
   concat (map defined_types (concat (map declared header))) = []"
  using referenced_types_from_platform [OF posix_types_conform, of Cxx "{}" "''clockid_t''"]
    posix_types_conform
  by blast

section \<open>Language linkage\<close>

text \<open>
  C8. Compiled as C++ (\<open>__cplusplus\<close> defined), the four prototypes stand between the
  line \<^verbatim>\<open>extern "C" {\<close> and its closing brace, so each has C language linkage and its
  symbol is its own name, whatever the platform's name mangling. Compiled as C
  (\<open>__cplusplus\<close> not defined), the two wrapper lines are dropped by the preprocessor and
  the four prototypes are accepted as they are.
\<close>

theorem extern_c_linkage:
  assumes "posix_headers P" and "guard \<notin> U"
  shows "preprocess (predefined Cxx \<union> U) header =
           Inr ([SysHeader ''pthread.h'', SysHeader ''time.h'', Source LinkageOpen] @
                map (\<lambda>d. Source (Decl (Prototype d))) prototypes @ [Source BlockClose]) \<and>
         compile Cxx P U header = Inr (map (\<lambda>d. (CLinkage, Prototype d)) prototypes) \<and>
         function_symbols mangle (map (\<lambda>d. (CLinkage, Prototype d)) prototypes) =
           [''pthread_cond_clockwait'', ''pthread_mutex_clocklock'',
            ''pthread_rwlock_clockrdlock'', ''pthread_rwlock_clockwrlock''] \<and>
         (cplusplus \<notin> U \<longrightarrow>
            preprocess (predefined C \<union> U) header =
              Inr ([SysHeader ''pthread.h'', SysHeader ''time.h''] @
                   map (\<lambda>d. Source (Decl (Prototype d))) prototypes) \<and>
            compile C P U header = Inr (map (\<lambda>d. (CLinkage, Prototype d)) prototypes))"
proof -
  have g: "guard \<notin> predefined Cxx \<union> U"
    using assms(2) by (simp add: guard_def cplusplus_def)
  have "preprocess (predefined Cxx \<union> U) header =
           Inr ([SysHeader ''pthread.h'', SysHeader ''time.h'', Source LinkageOpen] @
                map (\<lambda>d. Source (Decl (Prototype d))) prototypes @ [Source BlockClose])"
    using g by (simp add: preprocess_header)
  moreover have "function_symbols mangle (map (\<lambda>d. (CLinkage, Prototype d)) prototypes) =
           [''pthread_cond_clockwait'', ''pthread_mutex_clocklock'',
            ''pthread_rwlock_clockrdlock'', ''pthread_rwlock_clockwrlock'']"
    by (simp add: prototype_defs)
  moreover have "preprocess (predefined C \<union> U) header =
              Inr ([SysHeader ''pthread.h'', SysHeader ''time.h''] @
                   map (\<lambda>d. Source (Decl (Prototype d))) prototypes)" if "cplusplus \<notin> U"
    using that assms(2) by (simp add: preprocess_header)
  ultimately show ?thesis
    using compile_header_cxx [OF assms] compile_header_c [OF assms] by simp
qed

theorem extern_c_linkage_witness:
  "posix_headers posix_types \<and> guard \<notin> {} \<and> cplusplus \<notin> {} \<and>
   compile Cxx posix_types {} header = Inr (map (\<lambda>d. (CLinkage, Prototype d)) prototypes) \<and>
   function_symbols (\<lambda>d. ''_Z'' @ fname d) (map (\<lambda>d. (CLinkage, Prototype d)) prototypes) =
     [''pthread_cond_clockwait'', ''pthread_mutex_clocklock'',
      ''pthread_rwlock_clockrdlock'', ''pthread_rwlock_clockwrlock''] \<and>
   compile C posix_types {} header = Inr (map (\<lambda>d. (CLinkage, Prototype d)) prototypes)"
  using extern_c_linkage [OF posix_types_conform, of "{}" "\<lambda>d. ''_Z'' @ fname d"]
    posix_types_conform
  by simp

section \<open>Calls through the declarations\<close>

lemma lookup_definition_prototypes:
  "lookup_definition f (map (\<lambda>d. (lk, Prototype d)) ds) = None"
  by (induction ds) simp_all

lemma lookup_prototype_prototypes:
  assumes "d \<in> set prototypes"
  shows "lookup_prototype (fname d) (map (\<lambda>d. (lk, Prototype d)) prototypes) = Some (lk, d)"
proof -
  from assms consider "d = pthread_cond_clockwait" | "d = pthread_mutex_clocklock"
    | "d = pthread_rwlock_clockrdlock" | "d = pthread_rwlock_clockwrlock"
    unfolding prototypes_def by fastforce
  then show ?thesis
  proof cases
    case 1
    then show ?thesis by (simp add: prototype_defs)
  next
    case 2
    then show ?thesis by (simp add: prototype_defs)
  next
    case 3
    then show ?thesis by (simp add: prototype_defs)
  next
    case 4
    then show ?thesis by (simp add: prototype_defs)
  qed
qed

text \<open>
  C6. The header puts nothing between a caller and the platform's thread library: it
  defines no function, and the one macro it defines is the include guard, which is not
  the name of any of the four functions. A call of one of the four functions through the
  header's declaration therefore binds to the library's function of that name, and the
  status the caller receives is the value that function returns.
\<close>

theorem call_binds_to_library:
  assumes "posix_headers P" and "guard \<notin> U" and "lang = C \<longrightarrow> cplusplus \<notin> U"
    and "d \<in> set prototypes" and "lib (fname d) = Some impl"
  shows "(case compile lang P U header of
            Inl e \<Rightarrow> False
          | Inr ds \<Rightarrow> resolve mangle lib ds (fname d) = Library impl \<and>
                      call mangle lib ds (fname d) a = Some (impl a)) \<and>
         concat (map defined_macros header) = [guard] \<and>
         guard \<notin> set (map fname prototypes) \<and>
         filter is_function_definition (concat (map declared header)) = []"
proof -
  have "resolve mangle lib (map (\<lambda>d. (CLinkage, Prototype d)) prototypes) (fname d) = Library impl"
    using assms(5)
    by (simp add: resolve_def lookup_definition_prototypes lookup_prototype_prototypes [OF assms(4)])
  moreover have "concat (map defined_macros header) = [guard]"
    by (simp add: header_def)
  moreover have "guard \<notin> set (map fname prototypes)"
    by (simp add: prototype_defs guard_def)
  moreover have "filter is_function_definition (concat (map declared header)) = []"
    by (simp add: header_declared prototypes_def)
  ultimately show ?thesis
    using compile_header [OF assms(1-3)] by (simp add: call_def)
qed

theorem call_binds_to_library_witness:
  "posix_headers posix_types \<and> guard \<notin> {} \<and> cplusplus \<notin> {} \<and>
   pthread_mutex_clocklock \<in> set prototypes \<and>
   [''pthread_mutex_clocklock'' \<mapsto> (\<lambda>u::unit. 110::int)] (fname pthread_mutex_clocklock) =
     Some (\<lambda>u. 110) \<and>
   (case compile C posix_types {} header of
      Inl e \<Rightarrow> False
    | Inr ds \<Rightarrow>
        resolve (\<lambda>d. ''_Z'' @ fname d) [''pthread_mutex_clocklock'' \<mapsto> (\<lambda>u::unit. 110::int)] ds
          (fname pthread_mutex_clocklock) = Library (\<lambda>u. 110) \<and>
        call (\<lambda>d. ''_Z'' @ fname d) [''pthread_mutex_clocklock'' \<mapsto> (\<lambda>u::unit. 110::int)] ds
          (fname pthread_mutex_clocklock) () = Some ((\<lambda>u. 110) ()))"
proof -
  have p: "pthread_mutex_clocklock \<in> set prototypes"
    by (simp add: prototypes_def)
  have l: "[''pthread_mutex_clocklock'' \<mapsto> (\<lambda>u::unit. 110::int)] (fname pthread_mutex_clocklock) =
     Some (\<lambda>u. 110)"
    by (simp add: pthread_mutex_clocklock_def)
  have c: "cplusplus \<notin> {}" by simp
  have n: "C = C \<longrightarrow> cplusplus \<notin> {}" by simp
  have g: "guard \<notin> {}" by simp
  have "(case compile C posix_types {} header of
      Inl e \<Rightarrow> False
    | Inr ds \<Rightarrow>
        resolve (\<lambda>d. ''_Z'' @ fname d) [''pthread_mutex_clocklock'' \<mapsto> (\<lambda>u::unit. 110::int)] ds
          (fname pthread_mutex_clocklock) = Library (\<lambda>u. 110) \<and>
        call (\<lambda>d. ''_Z'' @ fname d) [''pthread_mutex_clocklock'' \<mapsto> (\<lambda>u::unit. 110::int)] ds
          (fname pthread_mutex_clocklock) () = Some ((\<lambda>u. 110) ()))"
    using call_binds_to_library [where P = posix_types and U = "{}" and lang = C
        and d = pthread_mutex_clocklock
        and lib = "[''pthread_mutex_clocklock'' \<mapsto> (\<lambda>u::unit. 110::int)]"
        and impl = "\<lambda>u. 110" and mangle = "\<lambda>d. ''_Z'' @ fname d" and a = "()",
        OF posix_types_conform g n p l]
    by (rule conjunct1)
  with posix_types_conform g c p l show ?thesis by blast
qed

text \<open>
  Every pointer parameter of the four prototypes carries the \<open>__restrict\<close> qualifier, and
  no other parameter does.
\<close>

lemma pointer_parameters_restrict:
  "d \<in> set prototypes \<Longrightarrow> p \<in> set (params d) \<Longrightarrow>
   restrict_qualified (ptype p) = is_pointer (unqualified (ptype p))"
  by (auto simp: prototype_defs)

end
